theory Spec2Isabelle
  imports Complex_Main
begin

section \<open>Values of the program: errors, arrays, tuples, attributes\<close>

text \<open>
  The module \<^verbatim>\<open>deepxde/data/triple.py\<close> defines two dataset classes, \<^verbatim>\<open>Triple\<close> and
  \<^verbatim>\<open>TripleCartesianProd\<close>. An exception of the Python code is a value of \<open>error\<close>; a
  computation that may raise returns \<open>error + 'r\<close>, with \<open>Inl\<close> for the exception.
\<close>

datatype error = ValueError string | IndexError | TypeError | AttributeError

definition bind_err :: "error + 'b \<Rightarrow> ('b \<Rightarrow> error + 'c) \<Rightarrow> error + 'c" where
  "bind_err m f = (case m of Inl e \<Rightarrow> Inl e | Inr v \<Rightarrow> f v)"

text \<open>
  A NumPy array is its shape and its elements in row-major order. \<^verbatim>\<open>a.size\<close> is the
  product of the shape, \<^verbatim>\<open>len(a)\<close> the first dimension (a TypeError for a 0-d array), and
  \<^verbatim>\<open>a[indices]\<close> with a one-dimensional array of indices gathers rows along the first
  axis (an IndexError when an index is out of range or the array is 0-d).
  The sampler hands out indices of \<open>[0, n)\<close>, so an index is a \<open>nat\<close>.
\<close>

record 'a ndarray =
  shape :: "nat list"
  data :: "'a list"

definition size_nd :: "'a ndarray \<Rightarrow> nat" where
  "size_nd a = prod_list (shape a)"

definition len_nd :: "'a ndarray \<Rightarrow> error + nat" where
  "len_nd a = (case shape a of [] \<Rightarrow> Inl TypeError | n # _ \<Rightarrow> Inr n)"

definition row_size :: "'a ndarray \<Rightarrow> nat" where
  "row_size a = prod_list (tl (shape a))"

definition row :: "'a ndarray \<Rightarrow> nat \<Rightarrow> 'a list" where
  "row a i = take (row_size a) (drop (i * row_size a) (data a))"

definition take_rows :: "'a ndarray \<Rightarrow> nat list \<Rightarrow> 'a ndarray" where
  "take_rows a indices =
     \<lparr>shape = length indices # tl (shape a), data = concat (map (row a) indices)\<rparr>"

definition getitem :: "'a ndarray \<Rightarrow> nat list \<Rightarrow> error + 'a ndarray" where
  "getitem a indices =
     (case shape a of
        [] \<Rightarrow> Inl IndexError
      | n # _ \<Rightarrow> if list_all (\<lambda>i. i < n) indices then Inr (take_rows a indices)
               else Inl IndexError)"

definition wf_nd :: "'a ndarray \<Rightarrow> bool" where
  "wf_nd a = (length (data a) = size_nd a)"

text \<open>\<^verbatim>\<open>t[i]\<close> on a tuple, and reading an attribute that may not have been assigned yet.\<close>

definition tuple_get :: "'b list \<Rightarrow> nat \<Rightarrow> error + 'b" where
  "tuple_get xs i = (if i < length xs then Inr (xs ! i) else Inl IndexError)"

definition getattr :: "'b option \<Rightarrow> error + 'b" where
  "getattr v = (case v of None \<Rightarrow> Inl AttributeError | Some x \<Rightarrow> Inr x)"

fun map_err :: "('b \<Rightarrow> error + 'c) \<Rightarrow> 'b list \<Rightarrow> error + 'c list" where
  "map_err f [] = Inr []"
| "map_err f (x # xs) =
     (case f x of
        Inl e \<Rightarrow> Inl e
      | Inr y \<Rightarrow> (case map_err f xs of Inl e \<Rightarrow> Inl e | Inr ys \<Rightarrow> Inr (y # ys)))"

section \<open>The objects\<close>

text \<open>
  An object is the record of its attributes; an attribute that \<^verbatim>\<open>__init__\<close> has not
  assigned yet is \<open>None\<close>, so that a constructor which raises half way shows what it had
  stored. A method takes the object and, when it changes an attribute, returns the
  object with it. \<^verbatim>\<open>Triple\<close> has the attributes of \<^verbatim>\<open>TripleCartesianProd\<close> and
  \<^verbatim>\<open>scaler_x\<close>, whose value is Python's \<^verbatim>\<open>None\<close> or the tuple of scalers.

  The collaborators that are not part of the module are parameters of the model:
  \<^item> \<open>BatchSampler n shuffle\<close> is the sampler object \<^verbatim>\<open>BatchSampler(n, shuffle=...)\<close>, and
    \<open>get_next s k\<close> is \<^verbatim>\<open>s.get_next(k)\<close>: the indices (or the exception) and the sampler
    after the call;
  \<^item> \<open>fit_transform X\<close> creates a \<^verbatim>\<open>StandardScaler(with_mean=True, with_std=True)\<close> and
    calls \<^verbatim>\<open>fit_transform(X)\<close> on it: the fitted scaler and the transformed array;
    \<open>transform scaler X\<close> is \<^verbatim>\<open>scaler.transform(X)\<close>, which reads the scaler only;
  \<^item> \<open>loss\<close> is the loss function, \<open>model\<close> the model object.
\<close>

record ('a, 's) TripleCartesianProd_obj =
  train_x :: "'a ndarray list option"
  train_y :: "'a ndarray option"
  test_x :: "'a ndarray list option"
  test_y :: "'a ndarray option"
  train_sampler :: "'s option"

record ('a, 's, 'sc) Triple_obj = "('a, 's) TripleCartesianProd_obj" +
  scaler_x :: "'sc list option option"

definition new_TripleCartesianProd :: "('a, 's) TripleCartesianProd_obj" where
  "new_TripleCartesianProd =
     \<lparr>train_x = None, train_y = None, test_x = None, test_y = None, train_sampler = None\<rparr>"

definition new_Triple :: "('a, 's, 'sc) Triple_obj" where
  "new_Triple =
     \<lparr>train_x = None, train_y = None, test_x = None, test_y = None, train_sampler = None,
      scaler_x = None\<rparr>"

section \<open>class Triple\<close>

definition standardize_one ::
  "('a ndarray \<Rightarrow> error + 'sc \<times> 'a ndarray) \<Rightarrow> ('sc \<Rightarrow> 'a ndarray \<Rightarrow> error + 'a ndarray) \<Rightarrow>
   'a ndarray \<Rightarrow> 'a ndarray \<Rightarrow> error + 'sc \<times> 'a ndarray \<times> 'a ndarray" where
  "standardize_one fit_transform transform X1 X2 =
     (case fit_transform X1 of
        Inl e \<Rightarrow> Inl e
      | Inr (scaler, X1') \<Rightarrow>
          (case transform scaler X2 of
             Inl e \<Rightarrow> Inl e
           | Inr X2' \<Rightarrow> Inr (scaler, X1', X2')))"

text \<open>
  \<^verbatim>\<open>map\<close> over two tuples stops at the shorter one; \<^verbatim>\<open>zip(*...)\<close> of no triple at all
  has nothing to unpack into the three targets, which is a ValueError.
\<close>

definition Triple_standardize ::
  "('a ndarray \<Rightarrow> error + 'sc \<times> 'a ndarray) \<Rightarrow> ('sc \<Rightarrow> 'a ndarray \<Rightarrow> error + 'a ndarray) \<Rightarrow>
   ('a, 's, 'sc) Triple_obj \<Rightarrow> (error + unit) \<times> ('a, 's, 'sc) Triple_obj" where
  "Triple_standardize fit_transform transform self =
     (case bind_err (getattr (train_x self)) (\<lambda>X1s.
           bind_err (getattr (test_x self)) (\<lambda>X2s.
             map_err (\<lambda>(X1, X2). standardize_one fit_transform transform X1 X2)
               (zip X1s X2s))) of
        Inl e \<Rightarrow> (Inl e, self)
      | Inr [] \<Rightarrow> (Inl (ValueError ''not enough values to unpack (expected 3, got 0)''), self)
      | Inr rs \<Rightarrow>
          (Inr (), self\<lparr>scaler_x := Some (Some (map fst rs)),
                        train_x := Some (map (\<lambda>r. fst (snd r)) rs),
                        test_x := Some (map (\<lambda>r. snd (snd r)) rs)\<rparr>))"

definition Triple_init ::
  "(nat \<Rightarrow> bool \<Rightarrow> 's) \<Rightarrow>
   ('a ndarray \<Rightarrow> error + 'sc \<times> 'a ndarray) \<Rightarrow> ('sc \<Rightarrow> 'a ndarray \<Rightarrow> error + 'a ndarray) \<Rightarrow>
   'a ndarray list \<Rightarrow> 'a ndarray \<Rightarrow> 'a ndarray list \<Rightarrow> 'a ndarray \<Rightarrow> bool \<Rightarrow>
   ('a, 's, 'sc) Triple_obj \<Rightarrow> (error + unit) \<times> ('a, 's, 'sc) Triple_obj" where
  "Triple_init BatchSampler fit_transform transform X_train y_train X_test y_test
     standardize self =
     (let self1 = self\<lparr>train_x := Some X_train, train_y := Some y_train\<rparr>;
          self2 = self1\<lparr>test_x := Some X_test, test_y := Some y_test\<rparr>;
          self3 = self2\<lparr>scaler_x := Some None\<rparr>
      in case (if standardize then Triple_standardize fit_transform transform self3
               else (Inr (), self3)) of
           (Inl e, self4) \<Rightarrow> (Inl e, self4)
         | (Inr _, self4) \<Rightarrow>
             (case bind_err (getattr (train_y self4)) len_nd of
                Inl e \<Rightarrow> (Inl e, self4)
              | Inr n \<Rightarrow> (Inr (), self4\<lparr>train_sampler := Some (BatchSampler n True)\<rparr>)))"

definition Triple_losses ::
  "('a, 's, 'sc) Triple_obj \<Rightarrow> 't \<Rightarrow> 'o \<Rightarrow> ('t \<Rightarrow> 'o \<Rightarrow> 'l) \<Rightarrow> 'm \<Rightarrow> 'l list" where
  "Triple_losses self targets outputs loss model = [loss targets outputs]"

definition Triple_train_next_batch ::
  "('s \<Rightarrow> nat \<Rightarrow> (error + nat list) \<times> 's) \<Rightarrow> ('a, 's, 'sc) Triple_obj \<Rightarrow> nat option \<Rightarrow>
   (error + 'a ndarray list \<times> 'a ndarray) \<times> ('a, 's, 'sc) Triple_obj" where
  "Triple_train_next_batch get_next self batch_size =
     (case batch_size of
        None \<Rightarrow>
          (bind_err (getattr (train_x self)) (\<lambda>x.
           bind_err (getattr (train_y self)) (\<lambda>y. Inr (x, y))), self)
      | Some k \<Rightarrow>
          (case getattr (train_sampler self) of
             Inl e \<Rightarrow> (Inl e, self)
           | Inr s \<Rightarrow>
               (case get_next s k of
                  (r, s') \<Rightarrow>
                    (let self' = self\<lparr>train_sampler := Some s'\<rparr>
                     in (bind_err r (\<lambda>indices.
                         bind_err (getattr (train_x self')) (\<lambda>x.
                         bind_err (tuple_get x 0) (\<lambda>x0.
                         bind_err (getitem x0 indices) (\<lambda>b0.
                         bind_err (tuple_get x 1) (\<lambda>x1.
                         bind_err (getitem x1 indices) (\<lambda>b1.
                         bind_err (getattr (train_y self')) (\<lambda>y.
                         bind_err (getitem y indices) (\<lambda>by.
                           Inr ([b0, b1], by))))))))), self')))))"

definition Triple_test ::
  "('a, 's, 'sc) Triple_obj \<Rightarrow> error + 'a ndarray list \<times> 'a ndarray" where
  "Triple_test self =
     bind_err (getattr (test_x self)) (\<lambda>x.
     bind_err (getattr (test_y self)) (\<lambda>y. Inr (x, y)))"

definition Triple_transform_inputs ::
  "('sc \<Rightarrow> 'a ndarray \<Rightarrow> error + 'a ndarray) \<Rightarrow> ('a, 's, 'sc) Triple_obj \<Rightarrow>
   'a ndarray list \<Rightarrow> error + 'a ndarray list" where
  "Triple_transform_inputs transform self x =
     bind_err (getattr (scaler_x self)) (\<lambda>sx.
       case sx of
         None \<Rightarrow> Inr x
       | Some scalers \<Rightarrow> map_err (\<lambda>(scaler, xi). transform scaler xi) (zip scalers x))"

section \<open>class TripleCartesianProd\<close>

definition cartesian_mismatch :: "'a ndarray list \<Rightarrow> 'a ndarray \<Rightarrow> error + bool" where
  "cartesian_mismatch X y =
     bind_err (tuple_get X 0) (\<lambda>x0.
     bind_err (len_nd x0) (\<lambda>n1.
     bind_err (tuple_get X 1) (\<lambda>x1.
     bind_err (len_nd x1) (\<lambda>n2.
       Inr (n1 * n2 \<noteq> size_nd y)))))"

definition TripleCartesianProd_init ::
  "(nat \<Rightarrow> bool \<Rightarrow> 's) \<Rightarrow>
   'a ndarray list \<Rightarrow> 'a ndarray \<Rightarrow> 'a ndarray list \<Rightarrow> 'a ndarray \<Rightarrow>
   ('a, 's) TripleCartesianProd_obj \<Rightarrow> (error + unit) \<times> ('a, 's) TripleCartesianProd_obj" where
  "TripleCartesianProd_init BatchSampler X_train y_train X_test y_test self =
     (case cartesian_mismatch X_train y_train of
        Inl e \<Rightarrow> (Inl e, self)
      | Inr bad_train \<Rightarrow>
          if bad_train then
            (Inl (ValueError
               ''The training dataset does not have the format of Cartesian product.''), self)
          else
            (case cartesian_mismatch X_test y_test of
               Inl e \<Rightarrow> (Inl e, self)
             | Inr bad_test \<Rightarrow>
                 if bad_test then
                   (Inl (ValueError
                      ''The testing dataset does not have the format of Cartesian product.''),
                    self)
                 else
                   (let self1 = self\<lparr>train_x := Some X_train, train_y := Some y_train\<rparr>;
                        self2 = self1\<lparr>test_x := Some X_test, test_y := Some y_test\<rparr>
                    in case bind_err (tuple_get X_train 0) len_nd of
                         Inl e \<Rightarrow> (Inl e, self2)
                       | Inr n \<Rightarrow>
                           (Inr (), self2\<lparr>train_sampler := Some (BatchSampler n True)\<rparr>))))"

definition TripleCartesianProd_losses ::
  "('a, 's) TripleCartesianProd_obj \<Rightarrow> 't \<Rightarrow> 'o \<Rightarrow> ('t \<Rightarrow> 'o \<Rightarrow> 'l) \<Rightarrow> 'm \<Rightarrow> 'l list" where
  "TripleCartesianProd_losses self targets outputs loss model = [loss targets outputs]"

definition TripleCartesianProd_train_next_batch ::
  "('s \<Rightarrow> nat \<Rightarrow> (error + nat list) \<times> 's) \<Rightarrow> ('a, 's) TripleCartesianProd_obj \<Rightarrow> nat option \<Rightarrow>
   (error + 'a ndarray list \<times> 'a ndarray) \<times> ('a, 's) TripleCartesianProd_obj" where
  "TripleCartesianProd_train_next_batch get_next self batch_size =
     (case batch_size of
        None \<Rightarrow>
          (bind_err (getattr (train_x self)) (\<lambda>x.
           bind_err (getattr (train_y self)) (\<lambda>y. Inr (x, y))), self)
      | Some k \<Rightarrow>
          (case getattr (train_sampler self) of
             Inl e \<Rightarrow> (Inl e, self)
           | Inr s \<Rightarrow>
               (case get_next s k of
                  (r, s') \<Rightarrow>
                    (let self' = self\<lparr>train_sampler := Some s'\<rparr>
                     in (bind_err r (\<lambda>indices.
                         bind_err (getattr (train_x self')) (\<lambda>x.
                         bind_err (tuple_get x 0) (\<lambda>x0.
                         bind_err (getitem x0 indices) (\<lambda>b0.
                         bind_err (tuple_get x 1) (\<lambda>x1.
                         bind_err (getattr (train_y self')) (\<lambda>y.
                         bind_err (getitem y indices) (\<lambda>by.
                           Inr ([b0, x1], by)))))))), self')))))"

definition TripleCartesianProd_test ::
  "('a, 's) TripleCartesianProd_obj \<Rightarrow> error + 'a ndarray list \<times> 'a ndarray" where
  "TripleCartesianProd_test self =
     bind_err (getattr (test_x self)) (\<lambda>x.
     bind_err (getattr (test_y self)) (\<lambda>y. Inr (x, y)))"

section \<open>Basic facts\<close>

text \<open>
  Sequencing of computations that may raise, attribute reads and tuple indexing.
\<close>

lemma bind_err_Inr: "bind_err (Inr v) f = f v"
  by (simp add: bind_err_def)

lemma bind_err_Inl: "bind_err (Inl e) f = Inl e"
  by (simp add: bind_err_def)

lemma getattr_Some: "getattr (Some x) = Inr x"
  by (simp add: getattr_def)

lemma getattr_None: "getattr None = Inl AttributeError"
  by (simp add: getattr_def)

lemma tuple_get_0: "tuple_get (a # xs) 0 = Inr a"
  by (simp add: tuple_get_def)

lemma tuple_get_1: "tuple_get (a # b # xs) 1 = Inr b"
  by (simp add: tuple_get_def)

lemma tuple_get_Suc_0: "tuple_get (a # b # xs) (Suc 0) = Inr b"
  by (simp add: tuple_get_def)

lemmas err_simps = bind_err_Inr bind_err_Inl getattr_Some getattr_None tuple_get_0 tuple_get_1
  tuple_get_Suc_0

text \<open>
  Gathering rows: \<^verbatim>\<open>a[indices]\<close> succeeds exactly when the array has a first axis and every
  index lies on it, and row \<open>j\<close> of the result is row \<open>indices ! j\<close> of the array.
\<close>

lemma length_row:
  assumes "wf_nd a" "shape a = n # d" "i < n"
  shows "length (row a i) = row_size a"
proof -
  have len: "length (data a) = n * row_size a"
    using assms(1,2) by (simp add: wf_nd_def size_nd_def row_size_def)
  have "Suc i * row_size a \<le> n * row_size a"
    using assms(3) by (intro mult_le_mono1) simp
  then have "row_size a \<le> n * row_size a - i * row_size a"
    by simp
  then show ?thesis
    by (simp add: row_def len)
qed

lemma chunk_of_concat:
  assumes "list_all (\<lambda>x. length (f x) = r) xs" "j < length xs"
  shows "take r (drop (j * r) (concat (map f xs))) = f (xs ! j)"
  using assms
proof (induction xs arbitrary: j)
  case Nil
  then show ?case by simp
next
  case (Cons x xs)
  show ?case
  proof (cases j)
    case 0
    with Cons.prems show ?thesis by simp
  next
    case (Suc j')
    with Cons.prems have "take r (drop (j' * r) (concat (map f xs))) = f (xs ! j')"
      by (intro Cons.IH) simp_all
    with Suc Cons.prems show ?thesis by simp
  qed
qed

lemma row_take_rows:
  assumes "wf_nd a" "shape a = n # d" "list_all (\<lambda>i. i < n) indices" "j < length indices"
  shows "row (take_rows a indices) j = row a (indices ! j)"
proof -
  have "list_all (\<lambda>i. length (row a i) = row_size a) indices"
    using assms(3) length_row [OF assms(1,2)] by (simp add: list_all_iff)
  then have "take (row_size a) (drop (j * row_size a) (concat (map (row a) indices)))
      = row a (indices ! j)"
    using assms(4) by (rule chunk_of_concat)
  moreover have "row_size (take_rows a indices) = row_size a"
    by (simp add: row_size_def take_rows_def)
  moreover have "data (take_rows a indices) = concat (map (row a) indices)"
    by (simp add: take_rows_def)
  moreover have "row (take_rows a indices) j =
      take (row_size (take_rows a indices))
        (drop (j * row_size (take_rows a indices)) (data (take_rows a indices)))"
    by (rule row_def)
  ultimately show ?thesis
    by simp
qed

lemma getitem_Inr_iff:
  "getitem a indices = Inr b \<longleftrightarrow>
     b = take_rows a indices \<and> (\<exists>n d. shape a = n # d \<and> list_all (\<lambda>i. i < n) indices)"
  by (auto simp: getitem_def split: list.splits)

lemma getitem_in_range:
  "shape a = n # d \<Longrightarrow> list_all (\<lambda>i. i < n) indices \<Longrightarrow>
   getitem a indices = Inr (take_rows a indices)"
  by (simp add: getitem_def)

lemma row_getitem:
  assumes "getitem a indices = Inr b" "wf_nd a" "j < length indices"
  shows "row b j = row a (indices ! j)"
  using assms row_take_rows [of a _ _ indices j] by (auto simp: getitem_Inr_iff)

lemma shape_take_rows: "shape (take_rows a indices) = length indices # tl (shape a)"
  by (simp add: take_rows_def)

text \<open>
  The constructor of \<^verbatim>\<open>TripleCartesianProd\<close> on a pair of arrays per split, as one case
  distinction; and whenever it raises, whatever the arguments, it has stored nothing.
\<close>

lemma cartesian_mismatch_pair:
  "len_nd A = Inr n1 \<Longrightarrow> len_nd B = Inr n2 \<Longrightarrow>
   cartesian_mismatch [A, B] y = Inr (n1 * n2 \<noteq> size_nd y)"
  by (simp add: cartesian_mismatch_def err_simps)

lemma TripleCartesianProd_init_pair:
  assumes "len_nd A = Inr n1" "len_nd B = Inr n2" "len_nd A' = Inr m1" "len_nd B' = Inr m2"
  shows "TripleCartesianProd_init BatchSampler [A, B] y [A', B'] y' self =
     (if n1 * n2 \<noteq> size_nd y then
        (Inl (ValueError
           ''The training dataset does not have the format of Cartesian product.''), self)
      else if m1 * m2 \<noteq> size_nd y' then
        (Inl (ValueError
           ''The testing dataset does not have the format of Cartesian product.''), self)
      else (Inr (), self\<lparr>train_x := Some [A, B], train_y := Some y,
                          test_x := Some [A', B'], test_y := Some y',
                          train_sampler := Some (BatchSampler n1 True)\<rparr>))"
  using assms
  by (simp add: TripleCartesianProd_init_def cartesian_mismatch_pair err_simps Let_def)

lemma TripleCartesianProd_init_fail_unchanged:
  "fst (TripleCartesianProd_init BatchSampler X_train y_train X_test y_test self) = Inl e \<Longrightarrow>
   snd (TripleCartesianProd_init BatchSampler X_train y_train X_test y_test self) = self"
  by (auto simp: TripleCartesianProd_init_def cartesian_mismatch_def bind_err_def Let_def
           split: sum.splits if_splits)

text \<open>
  The constructor of \<^verbatim>\<open>Triple\<close>: one branch of \<^verbatim>\<open>_standardize\<close>, and the value of
  \<^verbatim>\<open>scaler_x\<close> without standardization.
\<close>

lemma standardize_one_Inr:
  "fit_transform X1 = Inr (scaler, X1') \<Longrightarrow> transform scaler X2 = Inr X2' \<Longrightarrow>
   standardize_one fit_transform transform X1 X2 = Inr (scaler, X1', X2')"
  by (simp add: standardize_one_def)

lemma Triple_init_no_standardize:
  "Triple_init BatchSampler fit_transform transform X_train y_train X_test y_test False self0
     = (Inr (), self) \<Longrightarrow> scaler_x self = Some None"
  by (auto simp: Triple_init_def Let_def err_simps split: sum.splits)

text \<open>
  \<^verbatim>\<open>test\<close> of either class returns the stored held-out pair.
\<close>

lemma Triple_test_stored:
  "test_x self = Some X \<Longrightarrow> test_y self = Some y \<Longrightarrow> Triple_test self = Inr (X, y)"
  by (simp add: Triple_test_def err_simps)

lemma TripleCartesianProd_test_stored:
  "test_x self = Some X \<Longrightarrow> test_y self = Some y \<Longrightarrow>
   TripleCartesianProd_test self = Inr (X, y)"
  by (simp add: TripleCartesianProd_test_def err_simps)

section \<open>The claims\<close>

subsection \<open>C1: the Cartesian-product check of the constructor\<close>

text \<open>
  Claim C1. Constructing a \<^verbatim>\<open>TripleCartesianProd\<close> from two arrays per split raises the
  ValueError of the shape check if and only if \<open>len(A) * len(B) \<noteq> y.size\<close> for the training
  split or for the test split. The check runs before any attribute is assigned: whenever
  the constructor does not return normally, the object is as it was before the call, so
  none of \<^verbatim>\<open>train_x\<close>, \<^verbatim>\<open>train_y\<close>, \<^verbatim>\<open>test_x\<close>, \<^verbatim>\<open>test_y\<close>, \<^verbatim>\<open>train_sampler\<close> is set.
\<close>

theorem TripleCartesianProd_init_raises_iff:
  assumes "len_nd A = Inr n1" "len_nd B = Inr n2" "len_nd A' = Inr m1" "len_nd B' = Inr m2"
  shows "((\<exists>msg. fst (TripleCartesianProd_init BatchSampler [A, B] y [A', B'] y' self)
                 = Inl (ValueError msg))
          \<longleftrightarrow> (n1 * n2 \<noteq> size_nd y \<or> m1 * m2 \<noteq> size_nd y'))
       \<and> (fst (TripleCartesianProd_init BatchSampler [A, B] y [A', B'] y' self) \<noteq> Inr ()
          \<longrightarrow> snd (TripleCartesianProd_init BatchSampler [A, B] y [A', B'] y' self) = self)"
  by (simp add: TripleCartesianProd_init_pair [OF assms])

text \<open>
  The example of the specification: 3 and 4 rows with 11 output values raise and leave
  the fresh object without any attribute; 12 output values do not raise.
\<close>

theorem TripleCartesianProd_init_raises_iff_witness:
  "len_nd \<lparr>shape = [3, 1], data = [1, 2, 3 :: real]\<rparr> = Inr 3
   \<and> len_nd \<lparr>shape = [4, 1], data = [1, 2, 3, 4 :: real]\<rparr> = Inr 4
   \<and> len_nd \<lparr>shape = [1, 1], data = [5 :: real]\<rparr> = Inr 1
   \<and> 3 * 4 \<noteq> size_nd \<lparr>shape = [11], data = replicate 11 (0 :: real)\<rparr>
   \<and> (\<exists>msg. fst (TripleCartesianProd_init (\<lambda>n shuffle. (0 :: nat))
          [\<lparr>shape = [3, 1], data = [1, 2, 3 :: real]\<rparr>,
           \<lparr>shape = [4, 1], data = [1, 2, 3, 4]\<rparr>]
          \<lparr>shape = [11], data = replicate 11 0\<rparr>
          [\<lparr>shape = [1, 1], data = [5]\<rparr>, \<lparr>shape = [1, 1], data = [5]\<rparr>]
          \<lparr>shape = [1, 1], data = [7]\<rparr>
          new_TripleCartesianProd) = Inl (ValueError msg))
   \<and> snd (TripleCartesianProd_init (\<lambda>n shuffle. (0 :: nat))
          [\<lparr>shape = [3, 1], data = [1, 2, 3 :: real]\<rparr>, \<lparr>shape = [4, 1], data = [1, 2, 3, 4]\<rparr>]
          \<lparr>shape = [11], data = replicate 11 0\<rparr>
          [\<lparr>shape = [1, 1], data = [5]\<rparr>, \<lparr>shape = [1, 1], data = [5]\<rparr>]
          \<lparr>shape = [1, 1], data = [7]\<rparr>
          new_TripleCartesianProd) = new_TripleCartesianProd
   \<and> 3 * 4 = size_nd \<lparr>shape = [3, 4], data = replicate 12 (0 :: real)\<rparr>
   \<and> \<not> (\<exists>msg. fst (TripleCartesianProd_init (\<lambda>n shuffle. (0 :: nat))
          [\<lparr>shape = [3, 1], data = [1, 2, 3 :: real]\<rparr>,
           \<lparr>shape = [4, 1], data = [1, 2, 3, 4]\<rparr>]
          \<lparr>shape = [3, 4], data = replicate 12 0\<rparr>
          [\<lparr>shape = [1, 1], data = [5]\<rparr>, \<lparr>shape = [1, 1], data = [5]\<rparr>]
          \<lparr>shape = [1, 1], data = [7]\<rparr>
          new_TripleCartesianProd) = Inl (ValueError msg))"
proof -
  let ?A = "\<lparr>shape = [3, 1], data = [1, 2, 3 :: real]\<rparr>"
  let ?B = "\<lparr>shape = [4, 1], data = [1, 2, 3, 4 :: real]\<rparr>"
  let ?T = "\<lparr>shape = [1, 1], data = [5 :: real]\<rparr>"
  let ?yT = "\<lparr>shape = [1, 1], data = [7 :: real]\<rparr>"
  let ?y11 = "\<lparr>shape = [11], data = replicate 11 (0 :: real)\<rparr>"
  let ?y12 = "\<lparr>shape = [3, 4], data = replicate 12 (0 :: real)\<rparr>"
  let ?mk = "\<lambda>(n :: nat) (shuffle :: bool). (0 :: nat)"
  have a: "len_nd ?A = Inr 3" and b: "len_nd ?B = Inr 4" and t: "len_nd ?T = Inr 1"
    by (simp_all add: len_nd_def)
  have s11: "size_nd ?y11 = 11" and s12: "size_nd ?y12 = 12" and sT: "size_nd ?yT = 1"
    by (simp_all add: size_nd_def)
  note bad = TripleCartesianProd_init_raises_iff [OF a b t t,
      where BatchSampler = ?mk and y = ?y11 and y' = ?yT and self = new_TripleCartesianProd]
  note good = TripleCartesianProd_init_raises_iff [OF a b t t,
      where BatchSampler = ?mk and y = ?y12 and y' = ?yT and self = new_TripleCartesianProd]
  have "\<exists>msg. fst (TripleCartesianProd_init ?mk [?A, ?B] ?y11 [?T, ?T] ?yT
          new_TripleCartesianProd) = Inl (ValueError msg)"
    using bad by (simp only: s11 sT) simp
  moreover from this
  have "snd (TripleCartesianProd_init ?mk [?A, ?B] ?y11 [?T, ?T] ?yT
          new_TripleCartesianProd) = new_TripleCartesianProd"
    using bad by auto
  moreover
  have "\<not> (\<exists>msg. fst (TripleCartesianProd_init ?mk [?A, ?B] ?y12 [?T, ?T] ?yT
          new_TripleCartesianProd) = Inl (ValueError msg))"
    using good by (simp only: s12 sT) simp
  moreover have "3 * 4 \<noteq> size_nd ?y11" and "3 * 4 = size_nd ?y12"
    by (simp_all add: s11 s12)
  ultimately show ?thesis
    using a b t by blast
qed

subsection \<open>C2: a mini-batch of the Cartesian-product dataset\<close>

text \<open>
  Claim C2, as amended. For a \<^verbatim>\<open>TripleCartesianProd\<close> whose \<^verbatim>\<open>train_y\<close> has the documented
  shape \<open>(N1, N2)\<close>, with \<open>N1\<close> the rows of the first branch and \<open>N2\<close> the rows of the
  second, and a sampler that returns \<open>k\<close> indices below \<open>N1\<close>:
  \<^verbatim>\<open>train_next_batch(k)\<close> returns the \<open>k\<close> rows of the first branch selected by the indices,
  the second branch as stored, and the rows of \<^verbatim>\<open>train_y\<close> at the same indices, of shape
  \<open>(k, N2)\<close>; row \<open>j\<close> of each gathered array is row \<open>indices ! j\<close> of its source. The
  sampler is left in the state after the one call of \<^verbatim>\<open>get_next\<close>. (Arrays are values
  here: "the same object" is equality of the array.)
\<close>

theorem TripleCartesianProd_train_next_batch_rows:
  assumes "train_x self = Some [A, B]" "train_y self = Some y" "train_sampler self = Some s"
    and "get_next s k = (Inr indices, s')" "length indices = k"
    and "list_all (\<lambda>i. i < N1) indices"
    and "shape A = N1 # dA" "len_nd B = Inr N2" "shape y = [N1, N2]"
    and "wf_nd A" "wf_nd y"
  shows "TripleCartesianProd_train_next_batch get_next self (Some k) =
           (Inr ([take_rows A indices, B], take_rows y indices),
            self\<lparr>train_sampler := Some s'\<rparr>)
         \<and> shape (take_rows A indices) = k # dA
         \<and> shape (take_rows y indices) = [k, N2]
         \<and> (\<forall>j<k. row (take_rows A indices) j = row A (indices ! j)
                 \<and> row (take_rows y indices) j = row y (indices ! j))"
proof -
  have gA: "getitem A indices = Inr (take_rows A indices)"
    using assms(6,7) by (rule getitem_in_range [rotated])
  have gy: "getitem y indices = Inr (take_rows y indices)"
    using assms(6,9) by (rule getitem_in_range [rotated])
  have "TripleCartesianProd_train_next_batch get_next self (Some k) =
           (Inr ([take_rows A indices, B], take_rows y indices),
            self\<lparr>train_sampler := Some s'\<rparr>)"
    using assms(1-4) gA gy
    by (simp add: TripleCartesianProd_train_next_batch_def err_simps)
  moreover have "\<forall>j<k. row (take_rows A indices) j = row A (indices ! j)
                 \<and> row (take_rows y indices) j = row y (indices ! j)"
    using assms(5) row_take_rows [OF assms(10) assms(7) assms(6)]
      row_take_rows [OF assms(11) assms(9) assms(6)] by simp
  ultimately show ?thesis
    using assms(5,7,9) by (simp add: shape_take_rows)
qed

text \<open>
  The claim as stated, for every dataset the constructor accepts, fails: a flat
  \<^verbatim>\<open>train_y\<close> of \<open>2 * 3\<close> values passes the check, and the batch of size 1 then carries an
  output of shape \<open>(1,)\<close> holding one value, not a row of shape \<open>(1, 3)\<close>.
\<close>

theorem flat_train_y_batch_shape:
  "fst (TripleCartesianProd_init (\<lambda>n shuffle. (0 :: nat))
          [\<lparr>shape = [2, 1], data = [1, 2 :: real]\<rparr>, \<lparr>shape = [3, 1], data = [10, 20, 30]\<rparr>]
          \<lparr>shape = [6], data = [11, 12, 13, 21, 22, 23]\<rparr>
          [\<lparr>shape = [2, 1], data = [1, 2]\<rparr>, \<lparr>shape = [3, 1], data = [10, 20, 30]\<rparr>]
          \<lparr>shape = [6], data = [11, 12, 13, 21, 22, 23]\<rparr>
          new_TripleCartesianProd) = Inr ()
   \<and> fst (TripleCartesianProd_train_next_batch (\<lambda>s k. (Inr [s ..< s + k], s + k))
        (snd (TripleCartesianProd_init (\<lambda>n shuffle. (0 :: nat))
          [\<lparr>shape = [2, 1], data = [1, 2 :: real]\<rparr>, \<lparr>shape = [3, 1], data = [10, 20, 30]\<rparr>]
          \<lparr>shape = [6], data = [11, 12, 13, 21, 22, 23]\<rparr>
          [\<lparr>shape = [2, 1], data = [1, 2]\<rparr>, \<lparr>shape = [3, 1], data = [10, 20, 30]\<rparr>]
          \<lparr>shape = [6], data = [11, 12, 13, 21, 22, 23]\<rparr>
          new_TripleCartesianProd))
        (Some 1))
     = Inr ([\<lparr>shape = [1, 1], data = [1]\<rparr>, \<lparr>shape = [3, 1], data = [10, 20, 30]\<rparr>],
            \<lparr>shape = [1], data = [11]\<rparr>)"
  by (simp add: TripleCartesianProd_init_def cartesian_mismatch_def
      TripleCartesianProd_train_next_batch_def new_TripleCartesianProd_def err_simps
      len_nd_def size_nd_def getitem_def take_rows_def row_def row_size_def Let_def)

text \<open>
  An instance of the amended claim: a \<open>2 \<times> 3\<close> table and the indices \<open>[1, 0]\<close>.
\<close>

theorem TripleCartesianProd_train_next_batch_rows_witness:
  "train_x \<lparr>train_x = Some [\<lparr>shape = [2, 1], data = [1, 2 :: real]\<rparr>,
                            \<lparr>shape = [3, 1], data = [10, 20, 30]\<rparr>],
            train_y = Some \<lparr>shape = [2, 3], data = [11, 12, 13, 21, 22, 23]\<rparr>,
            test_x = None, test_y = None, train_sampler = Some (0 :: nat)\<rparr>
     = Some [\<lparr>shape = [2, 1], data = [1, 2]\<rparr>, \<lparr>shape = [3, 1], data = [10, 20, 30]\<rparr>]
   \<and> list_all (\<lambda>i. i < 2) [1, 0 :: nat]
   \<and> len_nd \<lparr>shape = [3, 1], data = [10, 20, 30 :: real]\<rparr> = Inr 3
   \<and> wf_nd \<lparr>shape = [2, 1], data = [1, 2 :: real]\<rparr>
   \<and> wf_nd \<lparr>shape = [2, 3], data = [11, 12, 13, 21, 22, 23 :: real]\<rparr>
   \<and> TripleCartesianProd_train_next_batch (\<lambda>s k. (Inr [1, 0], s + k))
        \<lparr>train_x = Some [\<lparr>shape = [2, 1], data = [1, 2 :: real]\<rparr>,
                          \<lparr>shape = [3, 1], data = [10, 20, 30]\<rparr>],
          train_y = Some \<lparr>shape = [2, 3], data = [11, 12, 13, 21, 22, 23]\<rparr>,
          test_x = None, test_y = None, train_sampler = Some (0 :: nat)\<rparr>
        (Some 2)
     = (Inr ([\<lparr>shape = [2, 1], data = [2, 1]\<rparr>, \<lparr>shape = [3, 1], data = [10, 20, 30]\<rparr>],
             \<lparr>shape = [2, 3], data = [21, 22, 23, 11, 12, 13]\<rparr>),
        \<lparr>train_x = Some [\<lparr>shape = [2, 1], data = [1, 2]\<rparr>,
                          \<lparr>shape = [3, 1], data = [10, 20, 30]\<rparr>],
          train_y = Some \<lparr>shape = [2, 3], data = [11, 12, 13, 21, 22, 23]\<rparr>,
          test_x = None, test_y = None, train_sampler = Some 2\<rparr>)
   \<and> row (take_rows \<lparr>shape = [2, 3], data = [11, 12, 13, 21, 22, 23 :: real]\<rparr> [1, 0]) 0
     = row \<lparr>shape = [2, 3], data = [11, 12, 13, 21, 22, 23]\<rparr> 1"
proof -
  let ?A = "\<lparr>shape = [2, 1], data = [1, 2 :: real]\<rparr>"
  let ?B = "\<lparr>shape = [3, 1], data = [10, 20, 30 :: real]\<rparr>"
  let ?y = "\<lparr>shape = [2, 3], data = [11, 12, 13, 21, 22, 23 :: real]\<rparr>"
  let ?self = "\<lparr>train_x = Some [?A, ?B], train_y = Some ?y,
                 test_x = None, test_y = None, train_sampler = Some (0 :: nat)\<rparr>"
  let ?gn = "\<lambda>(s :: nat) (k :: nat). (Inr [1, 0 :: nat] :: error + nat list, s + k)"
  have h1: "train_x ?self = Some [?A, ?B]" and h2: "train_y ?self = Some ?y"
    and h3: "train_sampler ?self = Some 0" and h4: "?gn 0 2 = (Inr [1, 0], 0 + 2)"
    and h5: "length [1, 0 :: nat] = 2" and h6: "list_all (\<lambda>i. i < 2) [1, 0 :: nat]"
    and h7: "shape ?A = 2 # [1]" and h8: "len_nd ?B = Inr 3" and h9: "shape ?y = [2, 3]"
    and h10: "wf_nd ?A" and h11: "wf_nd ?y"
    by (simp_all add: len_nd_def wf_nd_def size_nd_def)
  note t = TripleCartesianProd_train_next_batch_rows [where get_next = ?gn and s = 0
      and k = 2 and s' = "0 + 2" and indices = "[1, 0]",
      OF h1 h2 h3 h4 h5 h6 h7 h8 h9 h10 h11]
  have "row (take_rows ?y [1, 0]) 0 = row ?y ([1, 0] ! 0)"
    using t [THEN conjunct2, THEN conjunct2, THEN conjunct2, THEN spec, of 0] by simp
  moreover have "TripleCartesianProd_train_next_batch ?gn ?self (Some 2)
      = (Inr ([take_rows ?A [1, 0], ?B], take_rows ?y [1, 0]),
         ?self\<lparr>train_sampler := Some (0 + 2)\<rparr>)"
    by (rule t [THEN conjunct1])
  ultimately show ?thesis
    using h6 h8 h10 h11
    by (simp add: take_rows_def row_def row_size_def)
qed

subsection \<open>C3: standardization at construction\<close>

text \<open>
  Claim C3. Constructing a \<^verbatim>\<open>Triple\<close> with \<^verbatim>\<open>standardize=True\<close> fits one scaler per branch,
  each on the training array of that branch only; the training arrays are replaced by the
  arrays \<^verbatim>\<open>fit_transform\<close> returns, the test arrays by their images under \<^verbatim>\<open>transform\<close>
  of the scaler fitted on the training array of the same branch, and the two fitted
  scalers are kept in \<^verbatim>\<open>scaler_x\<close>, in the order of the branches.
\<close>

theorem Triple_init_standardize:
  assumes "fit_transform A = Inr (sa, A1)" "transform sa A' = Inr A1'"
    and "fit_transform B = Inr (sb, B1)" "transform sb B' = Inr B1'"
    and "len_nd y = Inr n"
  shows "Triple_init BatchSampler fit_transform transform [A, B] y [A', B'] y' True self =
           (Inr (), self\<lparr>train_x := Some [A1, B1], train_y := Some y,
                         test_x := Some [A1', B1'], test_y := Some y',
                         train_sampler := Some (BatchSampler n True),
                         scaler_x := Some (Some [sa, sb])\<rparr>)"
proof -
  have a: "standardize_one fit_transform transform A A' = Inr (sa, A1, A1')"
    using assms(1,2) by (rule standardize_one_Inr)
  have b: "standardize_one fit_transform transform B B' = Inr (sb, B1, B1')"
    using assms(3,4) by (rule standardize_one_Inr)
  show ?thesis
    using assms(5)
    by (simp add: Triple_init_def Triple_standardize_def err_simps Let_def a b)
qed

text \<open>
  An instance with a scaler that subtracts the mean of the array it was fitted on: the
  test values 5 and 50 are shifted by the training means 2 and 20.
\<close>

theorem Triple_init_standardize_witness:
  "len_nd \<lparr>shape = [2, 1], data = [7, 8 :: real]\<rparr> = Inr 2
   \<and> Triple_init (\<lambda>n shuffle. (0 :: nat))
        (\<lambda>X. Inr (sum_list (data X) / real (length (data X)),
                  X\<lparr>data := map (\<lambda>v. v - sum_list (data X) / real (length (data X))) (data X)\<rparr>))
        (\<lambda>m X. Inr (X\<lparr>data := map (\<lambda>v. v - m) (data X)\<rparr>))
        [\<lparr>shape = [2, 1], data = [1, 3 :: real]\<rparr>, \<lparr>shape = [2, 1], data = [10, 30]\<rparr>]
        \<lparr>shape = [2, 1], data = [7, 8]\<rparr>
        [\<lparr>shape = [1, 1], data = [5]\<rparr>, \<lparr>shape = [1, 1], data = [50]\<rparr>]
        \<lparr>shape = [1, 1], data = [9]\<rparr>
        True new_Triple
     = (Inr (),
        \<lparr>train_x = Some [\<lparr>shape = [2, 1], data = [- 1, 1]\<rparr>,
                          \<lparr>shape = [2, 1], data = [- 10, 10]\<rparr>],
          train_y = Some \<lparr>shape = [2, 1], data = [7, 8]\<rparr>,
          test_x = Some [\<lparr>shape = [1, 1], data = [3]\<rparr>, \<lparr>shape = [1, 1], data = [30]\<rparr>],
          test_y = Some \<lparr>shape = [1, 1], data = [9]\<rparr>,
          train_sampler = Some 0,
          scaler_x = Some (Some [2, 20])\<rparr>)"
proof -
  let ?ft = "\<lambda>X :: real ndarray. (Inr (sum_list (data X) / real (length (data X)),
      X\<lparr>data := map (\<lambda>v. v - sum_list (data X) / real (length (data X))) (data X)\<rparr>)
      :: error + real \<times> real ndarray)"
  let ?tr = "\<lambda>(m :: real) (X :: real ndarray).
      (Inr (X\<lparr>data := map (\<lambda>v. v - m) (data X)\<rparr>) :: error + real ndarray)"
  let ?A = "\<lparr>shape = [2, 1], data = [1, 3 :: real]\<rparr>"
  let ?B = "\<lparr>shape = [2, 1], data = [10, 30 :: real]\<rparr>"
  let ?y = "\<lparr>shape = [2, 1], data = [7, 8 :: real]\<rparr>"
  have h1: "?ft ?A = Inr (2, \<lparr>shape = [2, 1], data = [- 1, 1]\<rparr>)"
    and h2: "?tr 2 \<lparr>shape = [1, 1], data = [5]\<rparr> = Inr \<lparr>shape = [1, 1], data = [3]\<rparr>"
    and h3: "?ft ?B = Inr (20, \<lparr>shape = [2, 1], data = [- 10, 10]\<rparr>)"
    and h4: "?tr 20 \<lparr>shape = [1, 1], data = [50]\<rparr> = Inr \<lparr>shape = [1, 1], data = [30]\<rparr>"
    and h5: "len_nd ?y = Inr 2"
    by (simp_all add: len_nd_def)
  show ?thesis
    using h5 Triple_init_standardize [where fit_transform = ?ft and transform = ?tr
        and BatchSampler = "\<lambda>(n :: nat) (shuffle :: bool). (0 :: nat)"
        and y' = "\<lparr>shape = [1, 1], data = [9]\<rparr>" and self = new_Triple,
        OF h1 h2 h3 h4 h5]
    by (simp add: new_Triple_def)
qed

subsection \<open>C4: a mini-batch of the Triple dataset\<close>

text \<open>
  Claim C4. \<^verbatim>\<open>Triple.train_next_batch(batch_size)\<close> calls \<^verbatim>\<open>get_next\<close> of its sampler once
  and gathers with the indices it returned from the first branch, from the second branch
  and from \<^verbatim>\<open>train_y\<close>: whenever the three gathers are in range, row \<open>j\<close> of each
  returned array is row \<open>indices ! j\<close> of its source, so the rows stay aligned.
\<close>

theorem Triple_train_next_batch_aligned:
  assumes "train_x self = Some [A, B]" "train_y self = Some y" "train_sampler self = Some s"
    and "get_next s k = (Inr indices, s')"
    and "getitem A indices = Inr bA" "getitem B indices = Inr bB" "getitem y indices = Inr by"
    and "wf_nd A" "wf_nd B" "wf_nd y"
  shows "Triple_train_next_batch get_next self (Some k) =
           (Inr ([bA, bB], by), self\<lparr>train_sampler := Some s'\<rparr>)
         \<and> bA = take_rows A indices \<and> bB = take_rows B indices \<and> by = take_rows y indices
         \<and> (\<forall>j<length indices. row bA j = row A (indices ! j)
                 \<and> row bB j = row B (indices ! j)
                 \<and> row by j = row y (indices ! j))"
proof -
  have "Triple_train_next_batch get_next self (Some k) =
           (Inr ([bA, bB], by), self\<lparr>train_sampler := Some s'\<rparr>)"
    using assms(1-7) by (simp add: Triple_train_next_batch_def err_simps)
  moreover have "bA = take_rows A indices" "bB = take_rows B indices" "by = take_rows y indices"
    using assms(5-7) by (simp_all add: getitem_Inr_iff)
  moreover have "\<forall>j<length indices. row bA j = row A (indices ! j)
                 \<and> row bB j = row B (indices ! j)
                 \<and> row by j = row y (indices ! j)"
    using row_getitem [OF assms(5) assms(8)] row_getitem [OF assms(6) assms(9)]
      row_getitem [OF assms(7) assms(10)] by simp
  ultimately show ?thesis by simp
qed

text \<open>
  An instance with two rows and the indices \<open>[1, 0]\<close>.
\<close>

theorem Triple_train_next_batch_aligned_witness:
  "getitem \<lparr>shape = [2, 1], data = [1, 2 :: real]\<rparr> [1, 0]
     = Inr \<lparr>shape = [2, 1], data = [2, 1]\<rparr>
   \<and> getitem \<lparr>shape = [2, 2], data = [10, 11, 20, 21 :: real]\<rparr> [1, 0]
     = Inr \<lparr>shape = [2, 2], data = [20, 21, 10, 11]\<rparr>
   \<and> getitem \<lparr>shape = [2], data = [100, 200 :: real]\<rparr> [1, 0]
     = Inr \<lparr>shape = [2], data = [200, 100]\<rparr>
   \<and> wf_nd \<lparr>shape = [2, 1], data = [1, 2 :: real]\<rparr>
   \<and> wf_nd \<lparr>shape = [2, 2], data = [10, 11, 20, 21 :: real]\<rparr>
   \<and> wf_nd \<lparr>shape = [2], data = [100, 200 :: real]\<rparr>
   \<and> Triple_train_next_batch (\<lambda>s k. (Inr [1, 0], s + k))
        \<lparr>train_x = Some [\<lparr>shape = [2, 1], data = [1, 2 :: real]\<rparr>,
                          \<lparr>shape = [2, 2], data = [10, 11, 20, 21]\<rparr>],
          train_y = Some \<lparr>shape = [2], data = [100, 200]\<rparr>,
          test_x = None, test_y = None, train_sampler = Some (0 :: nat),
          scaler_x = Some (None :: real list option)\<rparr>
        (Some 2)
     = (Inr ([\<lparr>shape = [2, 1], data = [2, 1]\<rparr>, \<lparr>shape = [2, 2], data = [20, 21, 10, 11]\<rparr>],
             \<lparr>shape = [2], data = [200, 100]\<rparr>),
        \<lparr>train_x = Some [\<lparr>shape = [2, 1], data = [1, 2]\<rparr>,
                          \<lparr>shape = [2, 2], data = [10, 11, 20, 21]\<rparr>],
          train_y = Some \<lparr>shape = [2], data = [100, 200]\<rparr>,
          test_x = None, test_y = None, train_sampler = Some 2,
          scaler_x = Some None\<rparr>)
   \<and> row \<lparr>shape = [2, 2], data = [20, 21, 10, 11 :: real]\<rparr> 0
     = row \<lparr>shape = [2, 2], data = [10, 11, 20, 21]\<rparr> 1"
proof -
  let ?A = "\<lparr>shape = [2, 1], data = [1, 2 :: real]\<rparr>"
  let ?B = "\<lparr>shape = [2, 2], data = [10, 11, 20, 21 :: real]\<rparr>"
  let ?y = "\<lparr>shape = [2], data = [100, 200 :: real]\<rparr>"
  let ?self = "\<lparr>train_x = Some [?A, ?B], train_y = Some ?y,
                 test_x = None, test_y = None, train_sampler = Some (0 :: nat),
                 scaler_x = Some (None :: real list option)\<rparr>"
  let ?gn = "\<lambda>(s :: nat) (k :: nat). (Inr [1, 0 :: nat] :: error + nat list, s + k)"
  have h1: "train_x ?self = Some [?A, ?B]" and h2: "train_y ?self = Some ?y"
    and h3: "train_sampler ?self = Some 0" and h4: "?gn 0 2 = (Inr [1, 0], 0 + 2)"
    by simp_all
  have h5: "getitem ?A [1, 0] = Inr \<lparr>shape = [2, 1], data = [2, 1]\<rparr>"
    and h6: "getitem ?B [1, 0] = Inr \<lparr>shape = [2, 2], data = [20, 21, 10, 11]\<rparr>"
    and h7: "getitem ?y [1, 0] = Inr \<lparr>shape = [2], data = [200, 100]\<rparr>"
    by (simp_all add: getitem_def take_rows_def row_def row_size_def)
  have h8: "wf_nd ?A" and h9: "wf_nd ?B" and h10: "wf_nd ?y"
    by (simp_all add: wf_nd_def size_nd_def)
  note t = Triple_train_next_batch_aligned [where get_next = ?gn and s = 0 and k = 2
      and s' = "0 + 2" and indices = "[1, 0]", OF h1 h2 h3 h4 h5 h6 h7 h8 h9 h10]
  have "Triple_train_next_batch ?gn ?self (Some 2)
      = (Inr ([\<lparr>shape = [2, 1], data = [2, 1]\<rparr>, \<lparr>shape = [2, 2], data = [20, 21, 10, 11]\<rparr>],
              \<lparr>shape = [2], data = [200, 100]\<rparr>),
         ?self\<lparr>train_sampler := Some (0 + 2)\<rparr>)"
    by (rule t [THEN conjunct1])
  moreover have "row \<lparr>shape = [2, 2], data = [20, 21, 10, 11 :: real]\<rparr> 0 = row ?B ([1, 0] ! 0)"
    using t [THEN conjunct2, THEN conjunct2, THEN conjunct2, THEN conjunct2, THEN spec, of 0]
    by simp
  ultimately show ?thesis
    using h5 h6 h7 h8 h9 h10 by simp
qed

subsection \<open>C5: no batch size\<close>

text \<open>
  Claim C5. With \<^verbatim>\<open>batch_size=None\<close>, \<^verbatim>\<open>train_next_batch\<close> of either class returns the stored
  \<^verbatim>\<open>train_x\<close> and \<^verbatim>\<open>train_y\<close> as they are, and the object, its sampler included, is
  unchanged: \<^verbatim>\<open>get_next\<close> is not called, whatever it would do.
\<close>

theorem train_next_batch_None_identity:
  assumes "train_x t = Some X" "train_y t = Some y"
    and "train_x c = Some X'" "train_y c = Some y'"
  shows "Triple_train_next_batch get_next t None = (Inr (X, y), t)
       \<and> TripleCartesianProd_train_next_batch get_next' c None = (Inr (X', y'), c)"
  using assms
  by (simp add: Triple_train_next_batch_def TripleCartesianProd_train_next_batch_def err_simps)

text \<open>
  An instance for each class.
\<close>

theorem train_next_batch_None_identity_witness:
  "Triple_train_next_batch (\<lambda>s k. (Inr [0 ..< k], s + k))
     \<lparr>train_x = Some [\<lparr>shape = [2, 1], data = [1, 2 :: real]\<rparr>,
                       \<lparr>shape = [2, 1], data = [10, 20]\<rparr>],
       train_y = Some \<lparr>shape = [2], data = [100, 200]\<rparr>,
       test_x = None, test_y = None, train_sampler = Some (0 :: nat),
       scaler_x = Some (None :: real list option)\<rparr>
     None
   = (Inr ([\<lparr>shape = [2, 1], data = [1, 2]\<rparr>, \<lparr>shape = [2, 1], data = [10, 20]\<rparr>],
           \<lparr>shape = [2], data = [100, 200]\<rparr>),
      \<lparr>train_x = Some [\<lparr>shape = [2, 1], data = [1, 2]\<rparr>,
                        \<lparr>shape = [2, 1], data = [10, 20]\<rparr>],
        train_y = Some \<lparr>shape = [2], data = [100, 200]\<rparr>,
        test_x = None, test_y = None, train_sampler = Some 0,
        scaler_x = Some None\<rparr>)
   \<and> TripleCartesianProd_train_next_batch (\<lambda>s k. (Inr [0 ..< k], s + k))
     \<lparr>train_x = Some [\<lparr>shape = [2, 1], data = [1, 2 :: real]\<rparr>,
                       \<lparr>shape = [3, 1], data = [10, 20, 30]\<rparr>],
       train_y = Some \<lparr>shape = [2, 3], data = [11, 12, 13, 21, 22, 23]\<rparr>,
       test_x = None, test_y = None, train_sampler = Some (0 :: nat)\<rparr>
     None
   = (Inr ([\<lparr>shape = [2, 1], data = [1, 2]\<rparr>, \<lparr>shape = [3, 1], data = [10, 20, 30]\<rparr>],
           \<lparr>shape = [2, 3], data = [11, 12, 13, 21, 22, 23]\<rparr>),
      \<lparr>train_x = Some [\<lparr>shape = [2, 1], data = [1, 2]\<rparr>,
                        \<lparr>shape = [3, 1], data = [10, 20, 30]\<rparr>],
        train_y = Some \<lparr>shape = [2, 3], data = [11, 12, 13, 21, 22, 23]\<rparr>,
        test_x = None, test_y = None, train_sampler = Some 0\<rparr>)"
proof -
  let ?t = "\<lparr>train_x = Some [\<lparr>shape = [2, 1], data = [1, 2 :: real]\<rparr>,
                            \<lparr>shape = [2, 1], data = [10, 20]\<rparr>],
            train_y = Some \<lparr>shape = [2], data = [100, 200]\<rparr>,
            test_x = None, test_y = None, train_sampler = Some (0 :: nat),
            scaler_x = Some (None :: real list option)\<rparr>"
  let ?c = "\<lparr>train_x = Some [\<lparr>shape = [2, 1], data = [1, 2 :: real]\<rparr>,
                            \<lparr>shape = [3, 1], data = [10, 20, 30]\<rparr>],
            train_y = Some \<lparr>shape = [2, 3], data = [11, 12, 13, 21, 22, 23]\<rparr>,
            test_x = None, test_y = None, train_sampler = Some (0 :: nat)\<rparr>"
  have h1: "train_x ?t = Some [\<lparr>shape = [2, 1], data = [1, 2]\<rparr>,
                              \<lparr>shape = [2, 1], data = [10, 20]\<rparr>]"
    and h2: "train_y ?t = Some \<lparr>shape = [2], data = [100, 200]\<rparr>"
    and h3: "train_x ?c = Some [\<lparr>shape = [2, 1], data = [1, 2]\<rparr>,
                              \<lparr>shape = [3, 1], data = [10, 20, 30]\<rparr>]"
    and h4: "train_y ?c = Some \<lparr>shape = [2, 3], data = [11, 12, 13, 21, 22, 23]\<rparr>"
    by simp_all
  show ?thesis
    by (rule train_next_batch_None_identity [OF h1 h2 h3 h4])
qed

subsection \<open>C6: the message of the shape check\<close>

text \<open>
  Claim C6, as amended. When the check of a \<^verbatim>\<open>TripleCartesianProd\<close> fails, the message
  names the split that failed: one fixed text for the training split, another for the
  testing split (the training split is checked first). The message is the same whatever
  the counts are.
\<close>

theorem TripleCartesianProd_init_message:
  assumes "len_nd A = Inr n1" "len_nd B = Inr n2" "len_nd A' = Inr m1" "len_nd B' = Inr m2"
  shows "(n1 * n2 \<noteq> size_nd y \<longrightarrow>
            fst (TripleCartesianProd_init BatchSampler [A, B] y [A', B'] y' self) =
            Inl (ValueError
              ''The training dataset does not have the format of Cartesian product.''))
       \<and> (n1 * n2 = size_nd y \<and> m1 * m2 \<noteq> size_nd y' \<longrightarrow>
            fst (TripleCartesianProd_init BatchSampler [A, B] y [A', B'] y' self) =
            Inl (ValueError
              ''The testing dataset does not have the format of Cartesian product.''))"
  by (simp add: TripleCartesianProd_init_pair [OF assms])

text \<open>
  The claim as stated has the message give the expected and the actual count. It does
  not: 3 by 4 rows against 11 values and 2 by 5 rows against 7 values raise the same
  text, and the text has no digit in it.
\<close>

theorem TripleCartesianProd_init_message_without_counts:
  "fst (TripleCartesianProd_init (\<lambda>n shuffle. (0 :: nat))
          [\<lparr>shape = [3, 1], data = [1, 2, 3 :: real]\<rparr>,
           \<lparr>shape = [4, 1], data = [1, 2, 3, 4]\<rparr>]
          \<lparr>shape = [11], data = replicate 11 0\<rparr>
          [\<lparr>shape = [1, 1], data = [5]\<rparr>, \<lparr>shape = [1, 1], data = [5]\<rparr>]
          \<lparr>shape = [1, 1], data = [7]\<rparr>
          new_TripleCartesianProd)
     = Inl (ValueError ''The training dataset does not have the format of Cartesian product.'')
   \<and> fst (TripleCartesianProd_init (\<lambda>n shuffle. (0 :: nat))
          [\<lparr>shape = [2, 1], data = [1, 2 :: real]\<rparr>,
           \<lparr>shape = [5, 1], data = [1, 2, 3, 4, 5]\<rparr>]
          \<lparr>shape = [7], data = replicate 7 0\<rparr>
          [\<lparr>shape = [1, 1], data = [5]\<rparr>, \<lparr>shape = [1, 1], data = [5]\<rparr>]
          \<lparr>shape = [1, 1], data = [7]\<rparr>
          new_TripleCartesianProd)
     = Inl (ValueError ''The training dataset does not have the format of Cartesian product.'')
   \<and> set ''The training dataset does not have the format of Cartesian product.''
       \<inter> set ''0123456789'' = {}"
  by (simp add: TripleCartesianProd_init_def cartesian_mismatch_def err_simps
      len_nd_def size_nd_def)

text \<open>
  An instance for each split.
\<close>

theorem TripleCartesianProd_init_message_witness:
  "len_nd \<lparr>shape = [3, 1], data = [1, 2, 3 :: real]\<rparr> = Inr 3
   \<and> len_nd \<lparr>shape = [4, 1], data = [1, 2, 3, 4 :: real]\<rparr> = Inr 4
   \<and> len_nd \<lparr>shape = [1, 1], data = [5 :: real]\<rparr> = Inr 1
   \<and> 3 * 4 \<noteq> size_nd \<lparr>shape = [11], data = replicate 11 (0 :: real)\<rparr>
   \<and> fst (TripleCartesianProd_init (\<lambda>n shuffle. (0 :: nat))
          [\<lparr>shape = [3, 1], data = [1, 2, 3 :: real]\<rparr>,
           \<lparr>shape = [4, 1], data = [1, 2, 3, 4]\<rparr>]
          \<lparr>shape = [11], data = replicate 11 0\<rparr>
          [\<lparr>shape = [1, 1], data = [5]\<rparr>, \<lparr>shape = [1, 1], data = [5]\<rparr>]
          \<lparr>shape = [1, 1], data = [7]\<rparr>
          new_TripleCartesianProd)
     = Inl (ValueError ''The training dataset does not have the format of Cartesian product.'')
   \<and> 3 * 4 = size_nd \<lparr>shape = [3, 4], data = replicate 12 (0 :: real)\<rparr>
   \<and> 1 * 1 \<noteq> size_nd \<lparr>shape = [2], data = [7, 8 :: real]\<rparr>
   \<and> fst (TripleCartesianProd_init (\<lambda>n shuffle. (0 :: nat))
          [\<lparr>shape = [3, 1], data = [1, 2, 3 :: real]\<rparr>,
           \<lparr>shape = [4, 1], data = [1, 2, 3, 4]\<rparr>]
          \<lparr>shape = [3, 4], data = replicate 12 0\<rparr>
          [\<lparr>shape = [1, 1], data = [5]\<rparr>, \<lparr>shape = [1, 1], data = [5]\<rparr>]
          \<lparr>shape = [2], data = [7, 8]\<rparr>
          new_TripleCartesianProd)
     = Inl (ValueError ''The testing dataset does not have the format of Cartesian product.'')"
proof -
  let ?A = "\<lparr>shape = [3, 1], data = [1, 2, 3 :: real]\<rparr>"
  let ?B = "\<lparr>shape = [4, 1], data = [1, 2, 3, 4 :: real]\<rparr>"
  let ?T = "\<lparr>shape = [1, 1], data = [5 :: real]\<rparr>"
  let ?y11 = "\<lparr>shape = [11], data = replicate 11 (0 :: real)\<rparr>"
  let ?y12 = "\<lparr>shape = [3, 4], data = replicate 12 (0 :: real)\<rparr>"
  let ?mk = "\<lambda>(n :: nat) (shuffle :: bool). (0 :: nat)"
  have a: "len_nd ?A = Inr 3" and b: "len_nd ?B = Inr 4" and t: "len_nd ?T = Inr 1"
    by (simp_all add: len_nd_def)
  have s11: "3 * 4 \<noteq> size_nd ?y11" and s12: "3 * 4 = size_nd ?y12"
    and s1: "1 * 1 \<noteq> size_nd \<lparr>shape = [1, 1], data = [7 :: real]\<rparr> \<longrightarrow> False"
    and s2: "1 * 1 \<noteq> size_nd \<lparr>shape = [2], data = [7, 8 :: real]\<rparr>"
    by (simp_all add: size_nd_def)
  note train = TripleCartesianProd_init_message [OF a b t t,
      where BatchSampler = ?mk and y = ?y11 and y' = "\<lparr>shape = [1, 1], data = [7]\<rparr>"
        and self = new_TripleCartesianProd, THEN conjunct1, rule_format, OF s11]
  note test = TripleCartesianProd_init_message [OF a b t t,
      where BatchSampler = ?mk and y = ?y12 and y' = "\<lparr>shape = [2], data = [7, 8]\<rparr>"
        and self = new_TripleCartesianProd, THEN conjunct2, rule_format, OF conjI [OF s12 s2]]
  show ?thesis
    using a b t s11 s12 s2 train test by blast
qed

subsection \<open>C8: losses\<close>

text \<open>
  Claim C8. In both classes \<^verbatim>\<open>losses(targets, outputs, loss, model)\<close> is the list of
  exactly one element \<open>loss targets outputs\<close>, and the result is the same for any two
  models: the model is not applied to anything.
\<close>

theorem losses_single_element:
  "Triple_losses t targets outputs loss model = [loss targets outputs]
   \<and> TripleCartesianProd_losses c targets outputs loss model = [loss targets outputs]
   \<and> Triple_losses t targets outputs loss model = Triple_losses t targets outputs loss model'
   \<and> TripleCartesianProd_losses c targets outputs loss model =
       TripleCartesianProd_losses c targets outputs loss model'"
  by (simp add: Triple_losses_def TripleCartesianProd_losses_def)

subsection \<open>C9: transform_inputs without standardization\<close>

text \<open>
  Claim C9. On a \<^verbatim>\<open>Triple\<close> constructed with \<^verbatim>\<open>standardize=False\<close>, \<^verbatim>\<open>transform_inputs(x)\<close>
  returns \<open>x\<close> unchanged, whatever \<^verbatim>\<open>transform\<close> of a scaler would do.
\<close>

theorem Triple_transform_inputs_identity:
  assumes "Triple_init BatchSampler fit_transform transform X_train y_train X_test y_test
             False self0 = (Inr (), self)"
  shows "Triple_transform_inputs transform' self x = Inr x"
  using Triple_init_no_standardize [OF assms]
  by (simp add: Triple_transform_inputs_def err_simps)

text \<open>
  An instance.
\<close>

theorem Triple_transform_inputs_identity_witness:
  "Triple_init (\<lambda>n shuffle. (0 :: nat))
        (\<lambda>X. Inr (0 :: real, X)) (\<lambda>m X. Inr X)
        [\<lparr>shape = [2, 1], data = [1, 3 :: real]\<rparr>, \<lparr>shape = [2, 1], data = [10, 30]\<rparr>]
        \<lparr>shape = [2, 1], data = [7, 8]\<rparr>
        [\<lparr>shape = [1, 1], data = [5]\<rparr>, \<lparr>shape = [1, 1], data = [50]\<rparr>]
        \<lparr>shape = [1, 1], data = [9]\<rparr>
        False new_Triple
     = (Inr (),
        \<lparr>train_x = Some [\<lparr>shape = [2, 1], data = [1, 3]\<rparr>, \<lparr>shape = [2, 1], data = [10, 30]\<rparr>],
          train_y = Some \<lparr>shape = [2, 1], data = [7, 8]\<rparr>,
          test_x = Some [\<lparr>shape = [1, 1], data = [5]\<rparr>, \<lparr>shape = [1, 1], data = [50]\<rparr>],
          test_y = Some \<lparr>shape = [1, 1], data = [9]\<rparr>,
          train_sampler = Some 0,
          scaler_x = Some None\<rparr>)
   \<and> Triple_transform_inputs (\<lambda>(m :: real) X. Inr (X\<lparr>data := map (\<lambda>v. v - m) (data X)\<rparr>))
        \<lparr>train_x = Some [\<lparr>shape = [2, 1], data = [1, 3 :: real]\<rparr>,
                          \<lparr>shape = [2, 1], data = [10, 30]\<rparr>],
          train_y = Some \<lparr>shape = [2, 1], data = [7, 8]\<rparr>,
          test_x = Some [\<lparr>shape = [1, 1], data = [5]\<rparr>, \<lparr>shape = [1, 1], data = [50]\<rparr>],
          test_y = Some \<lparr>shape = [1, 1], data = [9]\<rparr>,
          train_sampler = Some (0 :: nat),
          scaler_x = Some None\<rparr>
        [\<lparr>shape = [1, 1], data = [4]\<rparr>, \<lparr>shape = [1, 1], data = [40]\<rparr>]
     = Inr [\<lparr>shape = [1, 1], data = [4]\<rparr>, \<lparr>shape = [1, 1], data = [40]\<rparr>]"
proof -
  let ?mk = "\<lambda>(n :: nat) (shuffle :: bool). (0 :: nat)"
  let ?ft = "\<lambda>X :: real ndarray. (Inr (0 :: real, X) :: error + real \<times> real ndarray)"
  let ?tr = "\<lambda>(m :: real) (X :: real ndarray). (Inr X :: error + real ndarray)"
  let ?X = "[\<lparr>shape = [2, 1], data = [1, 3 :: real]\<rparr>, \<lparr>shape = [2, 1], data = [10, 30]\<rparr>]"
  let ?y = "\<lparr>shape = [2, 1], data = [7, 8 :: real]\<rparr>"
  let ?Xt = "[\<lparr>shape = [1, 1], data = [5 :: real]\<rparr>, \<lparr>shape = [1, 1], data = [50]\<rparr>]"
  let ?yt = "\<lparr>shape = [1, 1], data = [9 :: real]\<rparr>"
  let ?self = "\<lparr>train_x = Some ?X, train_y = Some ?y, test_x = Some ?Xt, test_y = Some ?yt,
      train_sampler = Some (0 :: nat), scaler_x = Some (None :: real list option)\<rparr>"
  have h: "Triple_init ?mk ?ft ?tr ?X ?y ?Xt ?yt False new_Triple = (Inr (), ?self)"
    by (simp add: Triple_init_def new_Triple_def err_simps len_nd_def Let_def)
  show ?thesis
    using h Triple_transform_inputs_identity [OF h,
        where transform' = "\<lambda>(m :: real) X. Inr (X\<lparr>data := map (\<lambda>v. v - m) (data X)\<rparr>)"
          and x = "[\<lparr>shape = [1, 1], data = [4]\<rparr>, \<lparr>shape = [1, 1], data = [40]\<rparr>]"]
    by blast
qed

subsection \<open>C10: the check looks at the size of y only\<close>

text \<open>
  Claim C10. The constructor of \<^verbatim>\<open>TripleCartesianProd\<close> accepts every \<^verbatim>\<open>y\<close> whose number of
  elements is \<open>len(A) * len(B)\<close>, whatever its shape, and stores it as given;
  \<^verbatim>\<open>train_next_batch\<close> then gathers from the first axis of that \<^verbatim>\<open>y\<close> with the indices
  drawn for the first branch.
\<close>

theorem TripleCartesianProd_init_checks_size_only:
  assumes "len_nd A = Inr n1" "len_nd B = Inr n2" "len_nd A' = Inr m1" "len_nd B' = Inr m2"
    and "size_nd y = n1 * n2" "size_nd y' = m1 * m2"
    and "get_next (BatchSampler n1 True) k = (Inr indices, s')"
  shows "TripleCartesianProd_init BatchSampler [A, B] y [A', B'] y' self =
           (Inr (), self\<lparr>train_x := Some [A, B], train_y := Some y,
                         test_x := Some [A', B'], test_y := Some y',
                         train_sampler := Some (BatchSampler n1 True)\<rparr>)
       \<and> fst (TripleCartesianProd_train_next_batch get_next
              (snd (TripleCartesianProd_init BatchSampler [A, B] y [A', B'] y' self)) (Some k))
         = bind_err (getitem A indices) (\<lambda>b0.
           bind_err (getitem y indices) (\<lambda>by. Inr ([b0, B], by)))"
  using assms(5-7)
  by (simp add: TripleCartesianProd_init_pair [OF assms(1-4)]
      TripleCartesianProd_train_next_batch_def err_simps)

text \<open>
  Two instances with \<open>N1 = 2\<close> and \<open>N2 = 3\<close>: a flat vector of 6 values is accepted
  and the batch for index 1 carries one value; an array of shape \<open>(3, 2)\<close> is accepted
  and the batch for index 1 carries a row of 2 values.
\<close>

theorem TripleCartesianProd_init_checks_size_only_witness:
  "len_nd \<lparr>shape = [2, 1], data = [1, 2 :: real]\<rparr> = Inr 2
   \<and> len_nd \<lparr>shape = [3, 1], data = [10, 20, 30 :: real]\<rparr> = Inr 3
   \<and> size_nd \<lparr>shape = [6], data = [11, 12, 13, 21, 22, 23 :: real]\<rparr> = 2 * 3
   \<and> size_nd \<lparr>shape = [3, 2], data = [11, 21, 12, 22, 13, 23 :: real]\<rparr> = 2 * 3
   \<and> fst (TripleCartesianProd_init (\<lambda>n shuffle. (0 :: nat))
          [\<lparr>shape = [2, 1], data = [1, 2 :: real]\<rparr>, \<lparr>shape = [3, 1], data = [10, 20, 30]\<rparr>]
          \<lparr>shape = [6], data = [11, 12, 13, 21, 22, 23]\<rparr>
          [\<lparr>shape = [2, 1], data = [1, 2]\<rparr>, \<lparr>shape = [3, 1], data = [10, 20, 30]\<rparr>]
          \<lparr>shape = [3, 2], data = [11, 21, 12, 22, 13, 23]\<rparr>
          new_TripleCartesianProd) = Inr ()
   \<and> fst (TripleCartesianProd_train_next_batch (\<lambda>s k. (Inr [1], s + k))
        (snd (TripleCartesianProd_init (\<lambda>n shuffle. (0 :: nat))
          [\<lparr>shape = [2, 1], data = [1, 2 :: real]\<rparr>, \<lparr>shape = [3, 1], data = [10, 20, 30]\<rparr>]
          \<lparr>shape = [6], data = [11, 12, 13, 21, 22, 23]\<rparr>
          [\<lparr>shape = [2, 1], data = [1, 2]\<rparr>, \<lparr>shape = [3, 1], data = [10, 20, 30]\<rparr>]
          \<lparr>shape = [3, 2], data = [11, 21, 12, 22, 13, 23]\<rparr>
          new_TripleCartesianProd))
        (Some 1))
     = Inr ([\<lparr>shape = [1, 1], data = [2]\<rparr>, \<lparr>shape = [3, 1], data = [10, 20, 30]\<rparr>],
            \<lparr>shape = [1], data = [12]\<rparr>)
   \<and> fst (TripleCartesianProd_train_next_batch (\<lambda>s k. (Inr [1], s + k))
        (snd (TripleCartesianProd_init (\<lambda>n shuffle. (0 :: nat))
          [\<lparr>shape = [2, 1], data = [1, 2 :: real]\<rparr>, \<lparr>shape = [3, 1], data = [10, 20, 30]\<rparr>]
          \<lparr>shape = [3, 2], data = [11, 21, 12, 22, 13, 23]\<rparr>
          [\<lparr>shape = [2, 1], data = [1, 2]\<rparr>, \<lparr>shape = [3, 1], data = [10, 20, 30]\<rparr>]
          \<lparr>shape = [6], data = [11, 12, 13, 21, 22, 23]\<rparr>
          new_TripleCartesianProd))
        (Some 1))
     = Inr ([\<lparr>shape = [1, 1], data = [2]\<rparr>, \<lparr>shape = [3, 1], data = [10, 20, 30]\<rparr>],
            \<lparr>shape = [1, 2], data = [12, 22]\<rparr>)"
proof -
  let ?A = "\<lparr>shape = [2, 1], data = [1, 2 :: real]\<rparr>"
  let ?B = "\<lparr>shape = [3, 1], data = [10, 20, 30 :: real]\<rparr>"
  let ?flat = "\<lparr>shape = [6], data = [11, 12, 13, 21, 22, 23 :: real]\<rparr>"
  let ?transposed = "\<lparr>shape = [3, 2], data = [11, 21, 12, 22, 13, 23 :: real]\<rparr>"
  let ?mk = "\<lambda>(n :: nat) (shuffle :: bool). (0 :: nat)"
  let ?gn = "\<lambda>(s :: nat) (k :: nat). (Inr [1 :: nat] :: error + nat list, s + k)"
  have a: "len_nd ?A = Inr 2" and b: "len_nd ?B = Inr 3"
    by (simp_all add: len_nd_def)
  have f: "size_nd ?flat = 2 * 3" and t: "size_nd ?transposed = 2 * 3"
    by (simp_all add: size_nd_def)
  have g: "?gn (?mk 2 True) 1 = (Inr [1], 0 + 1)"
    by simp
  note flat = TripleCartesianProd_init_checks_size_only [where get_next = ?gn
      and BatchSampler = ?mk and k = 1 and indices = "[1]" and s' = "0 + 1"
      and self = new_TripleCartesianProd, OF a b a b f t g]
  note transposed = TripleCartesianProd_init_checks_size_only [where get_next = ?gn
      and BatchSampler = ?mk and k = 1 and indices = "[1]" and s' = "0 + 1"
      and self = new_TripleCartesianProd, OF a b a b t f g]
  have gA: "getitem ?A [1] = Inr \<lparr>shape = [1, 1], data = [2]\<rparr>"
    and gf: "getitem ?flat [1] = Inr \<lparr>shape = [1], data = [12]\<rparr>"
    and gt: "getitem ?transposed [1] = Inr \<lparr>shape = [1, 2], data = [12, 22]\<rparr>"
    by (simp_all add: getitem_def take_rows_def row_def row_size_def)
  have "fst (TripleCartesianProd_init ?mk [?A, ?B] ?flat [?A, ?B] ?transposed
          new_TripleCartesianProd) = Inr ()"
    using flat [THEN conjunct1] by simp
  moreover have "fst (TripleCartesianProd_train_next_batch ?gn
        (snd (TripleCartesianProd_init ?mk [?A, ?B] ?flat [?A, ?B] ?transposed
          new_TripleCartesianProd)) (Some 1))
      = Inr ([\<lparr>shape = [1, 1], data = [2]\<rparr>, ?B], \<lparr>shape = [1], data = [12]\<rparr>)"
    using flat [THEN conjunct2] by (simp only: gA gf bind_err_Inr)
  moreover have "fst (TripleCartesianProd_train_next_batch ?gn
        (snd (TripleCartesianProd_init ?mk [?A, ?B] ?transposed [?A, ?B] ?flat
          new_TripleCartesianProd)) (Some 1))
      = Inr ([\<lparr>shape = [1, 1], data = [2]\<rparr>, ?B], \<lparr>shape = [1, 2], data = [12, 22]\<rparr>)"
    using transposed [THEN conjunct2] by (simp only: gA gt bind_err_Inr)
  ultimately show ?thesis
    using a b f t by blast
qed

end
